theory Spec2Isabelle
  imports Complex_Main "HOL-Library.Word"
begin

section \<open>The interface of nanobenchmark.h\<close>

text \<open>
  The repository's source is the header \<^verbatim>\<open>nanobenchmark.h\<close>: the types of the
  measured function, the configuration \<^verbatim>\<open>Params\<close> with its default member
  initialisers, the record \<^verbatim>\<open>Result\<close>, the owner \<^verbatim>\<open>ScopedArray\<close> of the results
  buffer, the declaration of \<^verbatim>\<open>Measure\<close> and the bodies of the templates
  \<^verbatim>\<open>NumInputs\<close>, \<^verbatim>\<open>CallClosure\<close> and \<^verbatim>\<open>MeasureClosure\<close>. The bodies of
  \<^verbatim>\<open>Measure\<close>, of the constructor and of the destructor of \<^verbatim>\<open>ScopedArray\<close> are
  not part of the header.
\<close>

subsection \<open>Scalar types\<close>

text \<open>
  \<^verbatim>\<open>using FuncInput = size_t;\<close> The header does no arithmetic on inputs and the
  width of \<^verbatim>\<open>size_t\<close> is the platform's, so inputs and the \<^verbatim>\<open>size_t\<close> fields
  are natural numbers. \<^verbatim>\<open>using FuncOutput = uint64_t;\<close> is a 64-bit word.
  A pointer is an address; address 0 is \<^verbatim>\<open>nullptr\<close>.
\<close>

type_synonym FuncInput = nat

type_synonym FuncOutput = "64 word"

type_synonym addr = nat

text \<open>
  \<^verbatim>\<open>using Func = FuncOutput (*)(const void*, FuncInput);\<close> A function pointer is
  called with the opaque context pointer and an input. The call has no defined
  result when the context does not point to what the function expects; that is
  the value \<open>None\<close>.
\<close>

type_synonym Func = "addr \<Rightarrow> FuncInput \<Rightarrow> FuncOutput option"

subsection \<open>Params\<close>

text \<open>
  \<^verbatim>\<open>struct Params\<close>, lines 69 to 106. The two \<^verbatim>\<open>double\<close> fields hold the value of
  their decimal literal (the binary64 nearest to it in the program), kept here as
  the exact rational the literal denotes. \<^verbatim>\<open>kTimerSamples\<close> is a
  \<^verbatim>\<open>static constexpr\<close> member: a constant of the type, not a field of its values.
\<close>

record Params =
  precision_divisor :: nat
  subset_ratio :: nat
  seconds_per_eval :: rat
  min_samples_per_eval :: nat
  min_mode_samples :: nat
  target_rel_mad :: rat
  max_evals :: nat
  verbose :: bool

definition kTimerSamples :: nat where
  "kTimerSamples = 256"

text \<open>\<^verbatim>\<open>Params()\<close>: every field takes its default member initialiser.\<close>

definition Params_default :: Params where
  "Params_default =
     \<lparr> precision_divisor = 1024,
       subset_ratio = 2,
       seconds_per_eval = 4 / 10 ^ 3,
       min_samples_per_eval = 7,
       min_mode_samples = 64,
       target_rel_mad = 2 / 1000,
       max_evals = 9,
       verbose = True \<rparr>"

subsection \<open>Result and ScopedArray\<close>

text \<open>
  \<^verbatim>\<open>struct Result { FuncInput input; float ticks; float variability; };\<close>
  The two \<^verbatim>\<open>float\<close> fields are kept as rationals.
\<close>

record Result =
  input :: FuncInput
  ticks :: rat
  variability :: rat

text \<open>
  \<^verbatim>\<open>struct ScopedArray { ...; Result* results; const size_t num_results; };\<close>
  The object holds the address of the buffer, not the buffer.
\<close>

record ScopedArray =
  results :: addr
  num_results :: nat

text \<open>\<^verbatim>\<open>NumInputs\<close> returns the number of elements of the array it is given.\<close>

definition NumInputs :: "FuncInput list \<Rightarrow> nat" where
  "NumInputs inputs = length inputs"

subsection \<open>The entry points\<close>

text \<open>
  \<^verbatim>\<open>Measure(func, arg, inputs, num_inputs, p = Params())\<close> is declared in the
  header and defined elsewhere. Its body is the parameter \<open>body\<close>; the
  declaration contributes the default argument: a call that omits the
  configuration (\<open>None\<close>) passes \<^verbatim>\<open>Params()\<close>.
\<close>

definition default_arg :: "Params option \<Rightarrow> Params" where
  "default_arg po = (case po of None \<Rightarrow> Params_default | Some p \<Rightarrow> p)"

definition Measure ::
  "(Func \<Rightarrow> addr \<Rightarrow> FuncInput list \<Rightarrow> nat \<Rightarrow> Params \<Rightarrow> 'r) \<Rightarrow>
   Func \<Rightarrow> addr \<Rightarrow> FuncInput list \<Rightarrow> nat \<Rightarrow> Params option \<Rightarrow> 'r" where
  "Measure body func arg inputs num_inputs po =
     body func arg inputs num_inputs (default_arg po)"

text \<open>
  \<^verbatim>\<open>CallClosure(const Closure* f, input) { return (*f)(input); }\<close>
  A closure object is its call operator, a function from input to output; the
  memory \<open>mem\<close> says which closure lives at which address. Dereferencing an address
  that holds no closure has no defined result.
\<close>

type_synonym Closure = "FuncInput \<Rightarrow> FuncOutput"

definition CallClosure :: "(addr \<Rightarrow> Closure option) \<Rightarrow> addr \<Rightarrow> FuncInput \<Rightarrow> FuncOutput option" where
  "CallClosure mem f x = (case mem f of None \<Rightarrow> None | Some closure \<Rightarrow> Some (closure x))"

text \<open>
  \<^verbatim>\<open>MeasureClosure(closure, inputs, num_inputs, p = Params())\<close> returns
  \<^verbatim>\<open>Measure(reinterpret_cast<Func>(&CallClosure<Closure>),
  reinterpret_cast<const uint8_t*>(&closure), inputs, num_inputs, p)\<close>.
  The reference \<^verbatim>\<open>closure\<close> is the address \<open>closure_addr\<close> of the closure
  object; both casts leave the address and the function as they are.
\<close>

definition MeasureClosure ::
  "(Func \<Rightarrow> addr \<Rightarrow> FuncInput list \<Rightarrow> nat \<Rightarrow> Params \<Rightarrow> 'r) \<Rightarrow>
   (addr \<Rightarrow> Closure option) \<Rightarrow> addr \<Rightarrow> FuncInput list \<Rightarrow> nat \<Rightarrow> Params option \<Rightarrow> 'r" where
  "MeasureClosure body mem closure_addr inputs num_inputs po =
     Measure body (CallClosure mem) closure_addr inputs num_inputs (Some (default_arg po))"

text \<open>
  The second entry point as the specification words it: the forwarding adapter,
  applied to a context and an input, invokes the closure stored at the context on
  the input and returns its output; the closure entry point is the plain entry
  point on that adapter with the closure's address as the opaque context.
\<close>

definition forwarding_adapter :: "(addr \<Rightarrow> Closure option) \<Rightarrow> Func" where
  "forwarding_adapter mem ctx x = map_option (\<lambda>closure. closure x) (mem ctx)"

definition closure_entry_point ::
  "(Func \<Rightarrow> addr \<Rightarrow> FuncInput list \<Rightarrow> nat \<Rightarrow> Params \<Rightarrow> 'r) \<Rightarrow>
   (addr \<Rightarrow> Closure option) \<Rightarrow> addr \<Rightarrow> FuncInput list \<Rightarrow> nat \<Rightarrow> Params \<Rightarrow> 'r" where
  "closure_entry_point body mem closure_addr inputs num_inputs p =
     Measure body (forwarding_adapter mem) closure_addr inputs num_inputs (Some p)"

subsection \<open>The special member functions of ScopedArray\<close>

text \<open>
  Lines 119 to 129 declare, for \<^verbatim>\<open>ScopedArray\<close>:
  \<^verbatim>\<open>ScopedArray(const ScopedArray&) = delete;\<close>
  \<^verbatim>\<open>ScopedArray& operator=(const ScopedArray&) = delete;\<close>
  \<^verbatim>\<open>ScopedArray(ScopedArray&&) = default;\<close>
  \<^verbatim>\<open>ScopedArray& operator=(ScopedArray&&) = default;\<close>
  and the data members \<^verbatim>\<open>Result* results;\<close> and \<^verbatim>\<open>const size_t num_results;\<close>,
  both of scalar type. The declaration is kept as data.
\<close>

datatype special_member = CopyConstructor | CopyAssignment | MoveConstructor | MoveAssignment

datatype member_definition = Deleted | Defaulted | UserProvided

record data_member =
  member_name :: string
  is_const :: bool

record struct_decl =
  data_members :: "data_member list"
  declared :: "special_member \<Rightarrow> member_definition"

definition ScopedArray_decl :: struct_decl where
  "ScopedArray_decl =
     \<lparr> data_members =
         [\<lparr> member_name = ''results'', is_const = False \<rparr>,
          \<lparr> member_name = ''num_results'', is_const = True \<rparr>],
       declared = (\<lambda>m. case m of
           CopyConstructor \<Rightarrow> Deleted
         | CopyAssignment \<Rightarrow> Deleted
         | MoveConstructor \<Rightarrow> Defaulted
         | MoveAssignment \<Rightarrow> Defaulted) \<rparr>"

text \<open>
  What C++ makes of such a declaration, for a struct whose data members are all
  scalars. A member declared \<^verbatim>\<open>= delete\<close> is deleted. A defaulted copy or move
  assignment operator is defined as deleted when a non-static data member is of
  const-qualified non-class type; a defaulted copy or move constructor of scalar
  members is not deleted.
\<close>

definition is_assignment :: "special_member \<Rightarrow> bool" where
  "is_assignment m = (m = CopyAssignment \<or> m = MoveAssignment)"

definition defined_as_deleted :: "struct_decl \<Rightarrow> special_member \<Rightarrow> bool" where
  "defined_as_deleted c m =
     (case declared c m of
        Deleted \<Rightarrow> True
      | UserProvided \<Rightarrow> False
      | Defaulted \<Rightarrow> is_assignment m \<and> list_ex is_const (data_members c))"

text \<open>
  An expression that makes a \<^verbatim>\<open>ScopedArray\<close> from, or assigns to one, another
  \<^verbatim>\<open>ScopedArray\<close> that is an lvalue (a copy) or an rvalue (a move, as
  \<^verbatim>\<open>std::move\<close> gives). Overload resolution: the move member's parameter
  \<^verbatim>\<open>ScopedArray&&\<close> does not bind to an lvalue, so an lvalue selects the copy
  member; an rvalue selects the move member, unless that is a defaulted member
  defined as deleted, which overload resolution ignores, leaving the copy member.
  The expression is ill-formed (the program does not compile) when the selected
  member is deleted.
\<close>

datatype value_category = Lvalue | Rvalue

datatype transfer = Construct value_category | Assign value_category

definition ignored :: "struct_decl \<Rightarrow> special_member \<Rightarrow> bool" where
  "ignored c m = (declared c m = Defaulted \<and> defined_as_deleted c m)"

definition selected :: "struct_decl \<Rightarrow> transfer \<Rightarrow> special_member" where
  "selected c t =
     (case t of
        Construct Lvalue \<Rightarrow> CopyConstructor
      | Construct Rvalue \<Rightarrow>
          if ignored c MoveConstructor then CopyConstructor else MoveConstructor
      | Assign Lvalue \<Rightarrow> CopyAssignment
      | Assign Rvalue \<Rightarrow>
          if ignored c MoveAssignment then CopyAssignment else MoveAssignment)"

definition well_formed :: "struct_decl \<Rightarrow> transfer \<Rightarrow> bool" where
  "well_formed c t = (\<not> defined_as_deleted c (selected c t))"

text \<open>
  The defaulted move constructor moves member by member; moving a scalar (the
  pointer \<^verbatim>\<open>results\<close>, the count \<^verbatim>\<open>num_results\<close>) copies it and leaves the
  source as it was. The result is the source after the move and the new object.
\<close>

definition ScopedArray_move :: "ScopedArray \<Rightarrow> ScopedArray \<times> ScopedArray" where
  "ScopedArray_move other =
     (other, \<lparr> results = results other, num_results = num_results other \<rparr>)"

text \<open>
  Modelled from the spec: the allocator behind the results buffer, which the
  header does not show. It is instrumented as the ownership test of the
  specification's section 8 has it: the buffers that are live, and every
  release in the order it was made.
\<close>

record allocator =
  live :: "addr set"
  releases :: "addr list"

text \<open>
  Modelled from the spec: the body of the destructor \<^verbatim>\<open>~ScopedArray()\<close> is not in
  the header. The specification says that destruction releases the underlying
  buffer; so destroying an owner releases the buffer its \<^verbatim>\<open>results\<close> points to.
\<close>

definition ScopedArray_destroy :: "ScopedArray \<Rightarrow> allocator \<Rightarrow> allocator" where
  "ScopedArray_destroy a h =
     h \<lparr> live := live h - {results a}, releases := releases h @ [results a] \<rparr>"

section \<open>The measurement engine, as the specification describes it\<close>

text \<open>
  The body of \<^verbatim>\<open>Measure\<close> is not in the header. This section follows the
  specification's description of the engine (its sections 2, 4 and 7) for the
  parts the header names: the timer calibration that \<^verbatim>\<open>kTimerSamples\<close> bounds and
  the eval loop that \<^verbatim>\<open>max_evals\<close> bounds. What the specification places
  outside the engine, or describes only by a contract, is a parameter:
  the tick source, one eval round of the sample collector (which busy-waits on the
  tick source until its time or count threshold is met and is taken to return),
  the statistics that turn samples into a center and a relative deviation, and
  the allocation of the results buffer.
\<close>

text \<open>
  Modelled from the spec: the failures of section 7 that abort a call. The header
  declares no error type.
\<close>

datatype error = InvalidArgument | AllocationFailure

text \<open>
  Modelled from the spec: the diagnostic of section 7 for a missed target
  precision. The header has only the flag \<^verbatim>\<open>verbose\<close>.
\<close>

datatype notice = PrecisionNotReached

text \<open>
  Modelled from the spec: the per-input accumulators of section 3, internal to
  the absent body of \<^verbatim>\<open>Measure\<close>. One accumulator per distinct input: the ticks
  observed for it so far.
\<close>

type_synonym accumulators = "(FuncInput \<times> nat list) list"

text \<open>
  Modelled from the spec: the collaborators of the engine, whose code is not in
  the header. \<open>tick_pair k\<close> is the difference of the \<open>k\<close>-th fenced pair of
  tick reads; \<open>eval_round overhead func arg distribution p r acc x\<close> is the
  ticks that eval round \<open>r\<close> attributes to input \<open>x\<close>, given what was gathered
  before; \<open>statistics samples\<close> is the center and the relative median absolute
  deviation of the samples; \<open>buffer n\<close> is the address of a fresh buffer of
  \<open>n\<close> records, or \<open>None\<close> when it cannot be obtained.
\<close>

record collaborators =
  tick_pair :: "nat \<Rightarrow> nat"
  eval_round ::
    "rat \<Rightarrow> Func \<Rightarrow> addr \<Rightarrow> FuncInput list \<Rightarrow> Params \<Rightarrow> nat \<Rightarrow> accumulators \<Rightarrow> FuncInput \<Rightarrow> nat list"
  statistics :: "nat list \<Rightarrow> rat \<times> rat"
  buffer :: "nat \<Rightarrow> addr option"

text \<open>
  Modelled from the spec: the calibration loop, not in the header. Section 4.1:
  a fixed number (\<^verbatim>\<open>kTimerSamples\<close>) of back-to-back fenced tick-pair
  measurements, run inside a second loop across a second fixed count, the
  resulting deltas fed into the statistics. The header's comment on
  \<^verbatim>\<open>kTimerSamples\<close> (used in a nested loop, quadratic time) gives the second
  count: it is \<^verbatim>\<open>kTimerSamples\<close> again. Each function returns the deltas it
  measured and the number of tick pairs measured so far.
\<close>

primrec timer_samples :: "(nat \<Rightarrow> nat) \<Rightarrow> nat \<Rightarrow> nat \<Rightarrow> nat list \<times> nat" where
  "timer_samples tick 0 k = ([], k)"
| "timer_samples tick (Suc n) k =
     (case timer_samples tick n (Suc k) of (deltas, k') \<Rightarrow> (tick k # deltas, k'))"

text \<open>
  Modelled from the spec: the outer loop of the calibration, with the deltas of
  all its repetitions.
\<close>

primrec timer_repetitions :: "(nat \<Rightarrow> nat) \<Rightarrow> nat \<Rightarrow> nat \<Rightarrow> nat list \<times> nat" where
  "timer_repetitions tick 0 k = ([], k)"
| "timer_repetitions tick (Suc m) k =
     (case timer_samples tick kTimerSamples k of (deltas, k1) \<Rightarrow>
        (case timer_repetitions tick m k1 of (rest, k2) \<Rightarrow> (deltas @ rest, k2)))"

text \<open>
  Modelled from the spec: the calibrator of section 4.1, on the statistics and
  the tick source. It takes no configuration. Its result is the overhead with
  its variability, and the number of tick pairs it measured.
\<close>

definition TimerCalibrator ::
  "(nat list \<Rightarrow> rat \<times> rat) \<Rightarrow> (nat \<Rightarrow> nat) \<Rightarrow> (rat \<times> rat) \<times> nat" where
  "TimerCalibrator stats tick =
     (case timer_repetitions tick kTimerSamples 0 of (deltas, pairs) \<Rightarrow> (stats deltas, pairs))"

text \<open>
  Modelled from the spec: the accumulators, not in the header. Section 3: they
  are created at the start of a measurement call, one per distinct input value,
  in the order of first occurrence in the caller's sequence.
\<close>

primrec first_occurrences :: "'a list \<Rightarrow> 'a list" where
  "first_occurrences [] = []"
| "first_occurrences (x # xs) = x # removeAll x (first_occurrences xs)"

text \<open>
  Modelled from the spec: the accumulators at the start of a call, without
  samples.
\<close>

definition initial_accumulators :: "FuncInput list \<Rightarrow> accumulators" where
  "initial_accumulators distribution = map (\<lambda>x. (x, [])) (first_occurrences distribution)"

text \<open>
  Modelled from the spec: section 4.5, evals are cumulative. A round adds its
  samples to the accumulators that exist; it discards nothing.
\<close>

definition add_round :: "(accumulators \<Rightarrow> FuncInput \<Rightarrow> nat list) \<Rightarrow> accumulators \<Rightarrow> accumulators" where
  "add_round new acc = map (\<lambda>(x, samples). (x, samples @ new acc x)) acc"

text \<open>
  Modelled from the spec: the stopping test of section 4.5, every accumulator's
  relative deviation at or below \<^verbatim>\<open>target_rel_mad\<close>.
\<close>

definition converged :: "Params \<Rightarrow> (nat list \<Rightarrow> rat \<times> rat) \<Rightarrow> accumulators \<Rightarrow> bool" where
  "converged p stats acc =
     list_all (\<lambda>(x, samples). snd (stats samples) \<le> target_rel_mad p) acc"

text \<open>
  Modelled from the spec: the convergence controller, not in the header.
  Section 4.5: repeat eval rounds until, for every distinct input, the relative
  deviation is at or below \<^verbatim>\<open>target_rel_mad\<close>, or until \<^verbatim>\<open>max_evals\<close> rounds
  have run, whichever first. The header's comment on \<^verbatim>\<open>max_evals\<close> says the
  same: abort after this many evals without reaching \<^verbatim>\<open>target_rel_mad\<close>. The
  argument \<open>evals\<close> counts the rounds run so far; the result is the
  accumulators, the number of rounds run and whether the target was reached.
\<close>

function ConvergenceController ::
  "(nat \<Rightarrow> accumulators \<Rightarrow> FuncInput \<Rightarrow> nat list) \<Rightarrow> (nat list \<Rightarrow> rat \<times> rat) \<Rightarrow> Params \<Rightarrow>
   nat \<Rightarrow> accumulators \<Rightarrow> accumulators \<times> nat \<times> bool" where
  "ConvergenceController collect stats p evals acc =
     (if max_evals p \<le> evals then (acc, evals, False)
      else if converged p stats (add_round (collect evals) acc)
        then (add_round (collect evals) acc, Suc evals, True)
      else ConvergenceController collect stats p (Suc evals) (add_round (collect evals) acc))"
  by pat_completeness auto
termination
  by (relation "measure (\<lambda>(collect, stats, p, evals, acc). max_evals p - evals)") auto

declare ConvergenceController.simps [simp del]

text \<open>
  Modelled from the spec: the records written to the buffer, one per
  accumulator: the input, the center and the relative deviation of its samples.
\<close>

definition estimates :: "(nat list \<Rightarrow> rat \<times> rat) \<Rightarrow> accumulators \<Rightarrow> Result list" where
  "estimates stats acc =
     map (\<lambda>(x, samples).
            \<lparr> input = x, ticks = fst (stats samples), variability = snd (stats samples) \<rparr>) acc"

text \<open>
  Modelled from the spec: what a successful call of the absent body leaves. The
  owner it returns and the records in its buffer, and, as instrumentation, the
  number of eval rounds run, the number of tick pairs the calibration measured
  and the diagnostics printed.
\<close>

record outcome =
  owner :: ScopedArray
  records :: "Result list"
  evals_run :: nat
  timer_pairs :: nat
  notices :: "notice list"

text \<open>
  Modelled from the spec: the body of \<^verbatim>\<open>Measure\<close>, not in the header. Section 7:
  an empty input distribution or \<^verbatim>\<open>subset_ratio\<close> below 2 is InvalidArgument,
  detected before any timing; a buffer that cannot be obtained is
  AllocationFailure; a missed target precision is no error, only a notice when
  \<^verbatim>\<open>verbose\<close> is set. Section 4.6: calibrate once, run the controller loop,
  return the owned collection.
\<close>

definition Measure_spec ::
  "collaborators \<Rightarrow> Func \<Rightarrow> addr \<Rightarrow> FuncInput list \<Rightarrow> nat \<Rightarrow> Params \<Rightarrow> error + outcome" where
  "Measure_spec E func arg inputs num_inputs p =
     (if num_inputs = 0 \<or> subset_ratio p < 2 then Inl InvalidArgument
      else
        case buffer E (length (initial_accumulators (take num_inputs inputs))) of
          None \<Rightarrow> Inl AllocationFailure
        | Some b \<Rightarrow>
            (case TimerCalibrator (statistics E) (tick_pair E) of (overhead, pairs) \<Rightarrow>
               (case ConvergenceController
                       (eval_round E (fst overhead) func arg (take num_inputs inputs) p)
                       (statistics E) p 0 (initial_accumulators (take num_inputs inputs)) of
                  (acc, evals, reached) \<Rightarrow>
                    Inr \<lparr> owner = \<lparr> results = b, num_results = length acc \<rparr>,
                          records = estimates (statistics E) acc,
                          evals_run = evals,
                          timer_pairs = pairs,
                          notices = (if \<not> reached \<and> verbose p then [PrecisionNotReached] else []) \<rparr>)))"

text \<open>
  Modelled from the spec: the accumulators after the first \<open>n\<close> eval rounds,
  each round adding to what the rounds before it gathered (section 4.5).
\<close>

definition rounds_run ::
  "(nat \<Rightarrow> accumulators \<Rightarrow> FuncInput \<Rightarrow> nat list) \<Rightarrow> nat \<Rightarrow> accumulators \<Rightarrow> accumulators" where
  "rounds_run collect n acc = fold (\<lambda>r. add_round (collect r)) [0..<n] acc"

text \<open>
  Modelled from the spec: every record's variability is at or below
  \<^verbatim>\<open>target_rel_mad\<close>, the target precision of section 4.5.
\<close>

definition within_target :: "Params \<Rightarrow> Result list \<Rightarrow> bool" where
  "within_target p rs = list_all (\<lambda>r. variability r \<le> target_rel_mad p) rs"

text \<open>
  Collaborators to run the engine on: every tick pair measures 40 ticks, every
  round attributes one sample of \<open>100 + x\<close> ticks to input \<open>x\<close>, the center is
  the sum of the samples and the relative deviation of \<open>n\<close> samples is
  \<open>1 / (n + 1)\<close>, and the buffer is at address 4096.
\<close>

definition example_collaborators :: collaborators where
  "example_collaborators =
     \<lparr> tick_pair = (\<lambda>k. 40),
       eval_round = (\<lambda>overhead func arg distribution p r acc x. [100 + x]),
       statistics = (\<lambda>samples. (of_nat (sum_list samples), 1 / of_nat (Suc (length samples)))),
       buffer = (\<lambda>n. Some 4096) \<rparr>"

section \<open>Properties of the interface\<close>

text \<open>
  C4. A default-constructed \<^verbatim>\<open>Params\<close> has the documented defaults
  (precision_divisor 1024, subset_ratio 2, seconds_per_eval 4e-3,
  min_samples_per_eval 7, min_mode_samples 64, target_rel_mad 0.002, max_evals 9,
  verbose true), and \<^verbatim>\<open>Measure\<close> and \<^verbatim>\<open>MeasureClosure\<close> run on that value when the
  configuration argument is omitted, whatever the body of \<^verbatim>\<open>Measure\<close> is.
\<close>

theorem Params_defaults:
  "precision_divisor Params_default = 1024 \<and>
   subset_ratio Params_default = 2 \<and>
   seconds_per_eval Params_default = 4 / 1000 \<and>
   min_samples_per_eval Params_default = 7 \<and>
   min_mode_samples Params_default = 64 \<and>
   target_rel_mad Params_default = 2 / 1000 \<and>
   max_evals Params_default = 9 \<and>
   verbose Params_default = True \<and>
   Measure body func arg inputs num_inputs None =
     body func arg inputs num_inputs Params_default \<and>
   MeasureClosure body mem closure_addr inputs num_inputs None =
     body (CallClosure mem) closure_addr inputs num_inputs Params_default"
  by (simp add: Params_default_def Measure_def MeasureClosure_def default_arg_def)

text \<open>
  C3. For every closure, input array, count and configuration,
  \<^verbatim>\<open>MeasureClosure\<close> returns what \<^verbatim>\<open>Measure\<close> returns on the forwarding adapter
  and the closure's address, whatever the body of \<^verbatim>\<open>Measure\<close> is; and the adapter
  of the source, \<^verbatim>\<open>CallClosure\<close>, called on a context that holds a closure, returns
  that closure's output on the input.
\<close>

theorem MeasureClosure_is_Measure_on_adapter:
  "MeasureClosure body mem closure_addr inputs num_inputs (Some p) =
     closure_entry_point body mem closure_addr inputs num_inputs p \<and>
   (\<forall>closure. mem ctx = Some closure \<longrightarrow> CallClosure mem ctx x = Some (closure x))"
proof -
  have adapter: "CallClosure mem = forwarding_adapter mem"
    by (rule ext, rule ext)
       (simp add: CallClosure_def forwarding_adapter_def split: option.split)
  have "MeasureClosure body mem closure_addr inputs num_inputs (Some p) =
        Measure body (CallClosure mem) closure_addr inputs num_inputs (Some p)"
    by (simp add: MeasureClosure_def default_arg_def)
  with adapter have entry:
    "MeasureClosure body mem closure_addr inputs num_inputs (Some p) =
     closure_entry_point body mem closure_addr inputs num_inputs p"
    by (simp add: closure_entry_point_def)
  have call: "\<forall>closure. mem ctx = Some closure \<longrightarrow> CallClosure mem ctx x = Some (closure x)"
    by (simp add: CallClosure_def)
  from entry call show ?thesis ..
qed

text \<open>
  An instance: a body that calls the function on the first \<open>num_inputs\<close> inputs,
  and a closure at address 16 that adds its captured value 1 to the input.
\<close>

theorem MeasureClosure_is_Measure_on_adapter_witness:
  "MeasureClosure (\<lambda>func arg inputs n p. map (func arg) (take n inputs))
     (\<lambda>a. if a = 16 then Some (\<lambda>x. word_of_nat x + 1) else None) 16 [0, 0, 0, 1] 4
     (Some Params_default) = [Some 1, Some 1, Some 1, Some 2] \<and>
   CallClosure (\<lambda>a. if a = 16 then Some (\<lambda>x. word_of_nat x + 1) else None) 16 5 = Some 6"
  using MeasureClosure_is_Measure_on_adapter
    [of "\<lambda>func arg inputs n p. map (func arg) (take n inputs)"
        "\<lambda>a. if a = 16 then Some (\<lambda>x. word_of_nat x + 1) else None"
        16 "[0, 0, 0, 1]" 4 Params_default 16 5]
  by (simp add: closure_entry_point_def Measure_def forwarding_adapter_def default_arg_def)

text \<open>
  C2. The result collection at an owner \<open>a\<close> of the live two-record buffer at
  address 8192. Copy construction and copy assignment select a deleted member
  and are rejected at compile time, and move construction is well-formed, as the
  declarations intend. But the permitted move construction duplicates the
  ownership of the buffer: the source is left as it was, so after the move two
  owners hold the address of the one live buffer, and destroying both releases
  it twice. The deleted copies do not keep the buffer with a single owner.
\<close>

theorem ScopedArray_move_only_yet_move_duplicates_owner:
  "\<not> well_formed ScopedArray_decl (Construct Lvalue) \<and>
   \<not> well_formed ScopedArray_decl (Assign Lvalue) \<and>
   selected ScopedArray_decl (Construct Lvalue) = CopyConstructor \<and>
   selected ScopedArray_decl (Assign Lvalue) = CopyAssignment \<and>
   selected ScopedArray_decl (Construct Rvalue) = MoveConstructor \<and>
   well_formed ScopedArray_decl (Construct Rvalue) \<and>
   fst (ScopedArray_move \<lparr> results = 8192, num_results = 2 \<rparr>) =
     \<lparr> results = 8192, num_results = 2 \<rparr> \<and>
   snd (ScopedArray_move \<lparr> results = 8192, num_results = 2 \<rparr>) =
     \<lparr> results = 8192, num_results = 2 \<rparr> \<and>
   results (fst (ScopedArray_move \<lparr> results = 8192, num_results = 2 \<rparr>))
     \<in> live \<lparr> live = {8192}, releases = [] \<rparr> \<and>
   results (snd (ScopedArray_move \<lparr> results = 8192, num_results = 2 \<rparr>))
     \<in> live \<lparr> live = {8192}, releases = [] \<rparr> \<and>
   releases
     (ScopedArray_destroy (fst (ScopedArray_move \<lparr> results = 8192, num_results = 2 \<rparr>))
        (ScopedArray_destroy (snd (ScopedArray_move \<lparr> results = 8192, num_results = 2 \<rparr>))
           \<lparr> live = {8192}, releases = [] \<rparr>)) = [8192, 8192]"
  by (simp add: well_formed_def selected_def ignored_def defined_as_deleted_def
      is_assignment_def ScopedArray_decl_def ScopedArray_move_def ScopedArray_destroy_def)

text \<open>
  C10. The move assignment operator of \<^verbatim>\<open>ScopedArray\<close> is declared defaulted and is
  defined as deleted, because the member \<^verbatim>\<open>num_results\<close> is const (it is the only
  const member, and without the qualifier the operator would not be deleted); so
  a move assignment is rejected at compile time, and move construction is the
  only well-formed transfer.
\<close>

theorem ScopedArray_move_assignment_deleted:
  "declared ScopedArray_decl MoveAssignment = Defaulted \<and>
   defined_as_deleted ScopedArray_decl MoveAssignment \<and>
   map member_name (filter is_const (data_members ScopedArray_decl)) = [''num_results''] \<and>
   \<not> defined_as_deleted
       (ScopedArray_decl \<lparr> data_members :=
          map (\<lambda>d. d \<lparr> is_const := False \<rparr>) (data_members ScopedArray_decl) \<rparr>)
       MoveAssignment \<and>
   \<not> well_formed ScopedArray_decl (Assign Rvalue) \<and>
   (\<forall>t. well_formed ScopedArray_decl t = (t = Construct Rvalue))"
proof -
  have each: "well_formed ScopedArray_decl t = (t = Construct Rvalue)" for t
  proof (cases t)
    case (Construct v)
    then show ?thesis
      by (cases v)
         (simp_all add: well_formed_def selected_def ignored_def defined_as_deleted_def
            is_assignment_def ScopedArray_decl_def)
  next
    case (Assign v)
    then show ?thesis
      by (cases v)
         (simp_all add: well_formed_def selected_def ignored_def defined_as_deleted_def
            is_assignment_def ScopedArray_decl_def)
  qed
  have decl: "declared ScopedArray_decl MoveAssignment = Defaulted"
    by (simp add: ScopedArray_decl_def)
  have deleted: "defined_as_deleted ScopedArray_decl MoveAssignment"
    by (simp add: defined_as_deleted_def is_assignment_def ScopedArray_decl_def)
  have const: "map member_name (filter is_const (data_members ScopedArray_decl)) = [''num_results'']"
    by (simp add: ScopedArray_decl_def)
  have without: "\<not> defined_as_deleted
       (ScopedArray_decl \<lparr> data_members :=
          map (\<lambda>d. d \<lparr> is_const := False \<rparr>) (data_members ScopedArray_decl) \<rparr>)
       MoveAssignment"
    by (simp add: defined_as_deleted_def is_assignment_def ScopedArray_decl_def)
  from each decl deleted const without show ?thesis
    by simp
qed

text \<open>
  C1. The move constructor at an owner \<open>a\<close> of the live three-record buffer at
  address 4096: after the move the source still holds the address of the live
  buffer, the same one the new owner holds. Destroying only the new owner
  releases the buffer once and leaves nothing live; destroying the source as
  well, as the end of its scope does, releases the same buffer a second time.
\<close>

theorem ScopedArray_move_leaves_source_pointing_at_buffer:
  "results (fst (ScopedArray_move \<lparr> results = 4096, num_results = 3 \<rparr>)) = 4096 \<and>
   results (snd (ScopedArray_move \<lparr> results = 4096, num_results = 3 \<rparr>)) = 4096 \<and>
   results (fst (ScopedArray_move \<lparr> results = 4096, num_results = 3 \<rparr>))
     \<in> live \<lparr> live = {4096}, releases = [] \<rparr> \<and>
   ScopedArray_destroy (snd (ScopedArray_move \<lparr> results = 4096, num_results = 3 \<rparr>))
     \<lparr> live = {4096}, releases = [] \<rparr> = \<lparr> live = {}, releases = [4096] \<rparr> \<and>
   ScopedArray_destroy (fst (ScopedArray_move \<lparr> results = 4096, num_results = 3 \<rparr>))
     (ScopedArray_destroy (snd (ScopedArray_move \<lparr> results = 4096, num_results = 3 \<rparr>))
        \<lparr> live = {4096}, releases = [] \<rparr>) = \<lparr> live = {}, releases = [4096, 4096] \<rparr>"
  by (simp add: ScopedArray_move_def ScopedArray_destroy_def)

section \<open>Properties of the engine as specified\<close>

lemma timer_samples_count: "snd (timer_samples tick n k) = k + n"
  by (induction n arbitrary: k) (simp_all add: case_prod_beta)

lemma timer_samples_length: "length (fst (timer_samples tick n k)) = n"
  by (induction n arbitrary: k) (simp_all add: case_prod_beta)

lemma timer_repetitions_count: "snd (timer_repetitions tick m k) = k + m * kTimerSamples"
  by (induction m arbitrary: k) (simp_all add: case_prod_beta timer_samples_count)

lemma timer_repetitions_length: "length (fst (timer_repetitions tick m k)) = m * kTimerSamples"
  by (induction m arbitrary: k) (simp_all add: case_prod_beta timer_samples_length)

lemma TimerCalibrator_pairs: "snd (TimerCalibrator stats tick) = kTimerSamples * kTimerSamples"
  by (simp add: TimerCalibrator_def case_prod_beta timer_repetitions_count)

lemma Measure_spec_timer_pairs:
  "Measure_spec E func arg inputs num_inputs p = Inr out \<Longrightarrow>
   timer_pairs out = kTimerSamples * kTimerSamples"
  using TimerCalibrator_pairs [of "statistics E" "tick_pair E"]
  by (auto simp: Measure_spec_def case_prod_beta split: if_splits option.splits)

text \<open>The engine on the example: two inputs, two rounds, the target missed.\<close>

lemma example_run:
  "Measure_spec example_collaborators (\<lambda>ctx x. Some (word_of_nat x + 1)) 0 [0, 0, 0, 1] 4
       (Params_default \<lparr> max_evals := 2 \<rparr>) =
     Inr \<lparr> owner = \<lparr> results = 4096, num_results = 2 \<rparr>,
           records = [\<lparr> input = 0, ticks = 200, variability = 1 / 3 \<rparr>,
                      \<lparr> input = 1, ticks = 202, variability = 1 / 3 \<rparr>],
           evals_run = 2,
           timer_pairs = 65536,
           notices = [PrecisionNotReached] \<rparr>"
  by (simp add: Measure_spec_def example_collaborators_def Params_default_def
      initial_accumulators_def ConvergenceController.simps converged_def estimates_def
      add_round_def TimerCalibrator_def case_prod_beta timer_repetitions_count
      kTimerSamples_def)

text \<open>
  C9. The timer calibration uses the constant \<^verbatim>\<open>kTimerSamples\<close> = 256 as the
  bound of both loops of its nest: the inner loop measures 256 tick pairs, the
  calibration 256 * 256 = 65536. The count is a constant of the program and no
  field of the configuration: every successful call calibrates with 65536 tick
  pairs, whatever its \<^verbatim>\<open>Params\<close> value is.
\<close>

theorem TimerCalibrator_takes_kTimerSamples_squared:
  "kTimerSamples = 256 \<and>
   length (fst (timer_samples tick kTimerSamples k)) = 256 \<and>
   snd (TimerCalibrator stats tick) = kTimerSamples * kTimerSamples \<and>
   snd (TimerCalibrator stats tick) = 65536 \<and>
   (\<forall>E func arg inputs num_inputs p out.
      Measure_spec E func arg inputs num_inputs p = Inr out \<longrightarrow> timer_pairs out = 65536)"
proof -
  have square: "kTimerSamples * kTimerSamples = 65536"
    by (simp add: kTimerSamples_def)
  have count: "kTimerSamples = 256"
    by (simp add: kTimerSamples_def)
  have inner: "length (fst (timer_samples tick kTimerSamples k)) = kTimerSamples"
    by (rule timer_samples_length)
  have pairs: "snd (TimerCalibrator stats tick) = kTimerSamples * kTimerSamples"
    by (rule TimerCalibrator_pairs)
  have calls: "\<forall>E func arg inputs num_inputs p out.
      Measure_spec E func arg inputs num_inputs p = Inr out \<longrightarrow> timer_pairs out = 65536"
    using Measure_spec_timer_pairs square by auto
  from count inner pairs square calls show ?thesis
    by (simp only: simp_thms)
qed

theorem TimerCalibrator_takes_kTimerSamples_squared_witness:
  "kTimerSamples = 256 \<and>
   snd (TimerCalibrator (statistics example_collaborators) (tick_pair example_collaborators)) = 65536 \<and>
   (\<exists>out. Measure_spec example_collaborators (\<lambda>ctx x. Some (word_of_nat x + 1)) 0 [0, 0, 0, 1] 4
       (Params_default \<lparr> max_evals := 2 \<rparr>) = Inr out \<and> timer_pairs out = 65536)"
  using TimerCalibrator_takes_kTimerSamples_squared
    [of "tick_pair example_collaborators" 0 "statistics example_collaborators"]
    example_run
  by simp

lemma controller_run:
  "evals \<le> max_evals p \<Longrightarrow>
   ConvergenceController collect stats p evals acc = (acc', n, reached) \<Longrightarrow>
   evals \<le> n \<and> n \<le> max_evals p \<and>
   acc' = fold (\<lambda>r. add_round (collect r)) [evals..<n] acc \<and>
   (reached \<longrightarrow> converged p stats acc') \<and>
   (\<not> reached \<longrightarrow> n = max_evals p \<and> (evals < n \<longrightarrow> \<not> converged p stats acc'))"
proof (induction collect stats p evals acc rule: ConvergenceController.induct)
  case (1 collect stats p evals acc)
  show ?case
  proof (cases "max_evals p \<le> evals")
    case True
    with "1.prems" show ?thesis
      by (simp add: ConvergenceController.simps)
  next
    case budget: False
    show ?thesis
    proof (cases "converged p stats (add_round (collect evals) acc)")
      case True
      with budget "1.prems" show ?thesis
        by (auto simp: ConvergenceController.simps upt_rec [of evals "Suc evals"])
    next
      case False
      with budget "1.prems" have rec:
        "ConvergenceController collect stats p (Suc evals) (add_round (collect evals) acc) =
           (acc', n, reached)"
        by (simp add: ConvergenceController.simps)
      from budget have "Suc evals \<le> max_evals p" by simp
      from "1.IH" [OF budget False this rec]
      have ih: "Suc evals \<le> n \<and> n \<le> max_evals p \<and>
                acc' = fold (\<lambda>r. add_round (collect r)) [Suc evals..<n] (add_round (collect evals) acc) \<and>
                (reached \<longrightarrow> converged p stats acc') \<and>
                (\<not> reached \<longrightarrow> n = max_evals p \<and> (Suc evals < n \<longrightarrow> \<not> converged p stats acc'))" .
      then have lt: "evals < n" by simp
      then have "[evals..<n] = evals # [Suc evals..<n]"
        by (rule upt_conv_Cons)
      with ih False show ?thesis
        by (cases "Suc evals = n") auto
    qed
  qed
qed

lemma within_target_estimates: "within_target p (estimates stats acc) = converged p stats acc"
  by (simp add: within_target_def estimates_def converged_def list_all_iff case_prod_beta)

text \<open>
  C6. A call with a non-empty input distribution, a \<^verbatim>\<open>subset_ratio\<close> of at
  least 2 and a buffer succeeds, after at most \<^verbatim>\<open>max_evals\<close> eval rounds (each
  round taken to return). It returns the estimates of all the samples its rounds
  accumulated. When it stops before \<^verbatim>\<open>max_evals\<close> rounds, every record is within
  \<^verbatim>\<open>target_rel_mad\<close> and nothing is printed. When a record is not within the
  target, all \<^verbatim>\<open>max_evals\<close> rounds were run, the call still succeeds with those
  estimates, and the only trace is the notice, printed when \<^verbatim>\<open>verbose\<close> is set.
\<close>

theorem Measure_spec_runs_at_most_max_evals:
  assumes nonempty: "num_inputs \<noteq> 0"
    and ratio: "2 \<le> subset_ratio p"
    and allocated: "buffer E (length (initial_accumulators (take num_inputs inputs))) = Some b"
  shows "\<exists>out. Measure_spec E func arg inputs num_inputs p = Inr out \<and>
     evals_run out \<le> max_evals p \<and>
     records out = estimates (statistics E)
       (rounds_run
          (eval_round E (fst (fst (TimerCalibrator (statistics E) (tick_pair E)))) func arg
             (take num_inputs inputs) p)
          (evals_run out) (initial_accumulators (take num_inputs inputs))) \<and>
     (evals_run out < max_evals p \<longrightarrow> within_target p (records out) \<and> notices out = []) \<and>
     (0 < evals_run out \<and> \<not> within_target p (records out) \<longrightarrow>
        evals_run out = max_evals p \<and>
        notices out = (if verbose p then [PrecisionNotReached] else [])) \<and>
     (\<not> verbose p \<longrightarrow> notices out = [])"
proof -
  define collect where
    "collect = eval_round E (fst (fst (TimerCalibrator (statistics E) (tick_pair E)))) func arg
       (take num_inputs inputs) p"
  define acc0 where "acc0 = initial_accumulators (take num_inputs inputs)"
  obtain acc n reached where
    run: "ConvergenceController collect (statistics E) p 0 acc0 = (acc, n, reached)"
    by (cases "ConvergenceController collect (statistics E) p 0 acc0") auto
  have "0 \<le> max_evals p" by simp
  from controller_run [OF this run]
  have bound: "n \<le> max_evals p"
    and cumulative: "acc = rounds_run collect n acc0"
    and reached: "reached \<Longrightarrow> converged p (statistics E) acc"
    and exhausted: "\<not> reached \<Longrightarrow> n = max_evals p"
    and missed: "\<not> reached \<Longrightarrow> 0 < n \<Longrightarrow> \<not> converged p (statistics E) acc"
    by (auto simp: rounds_run_def)
  define out where
    "out = \<lparr> owner = \<lparr> results = b, num_results = length acc \<rparr>,
             records = estimates (statistics E) acc,
             evals_run = n,
             timer_pairs = snd (TimerCalibrator (statistics E) (tick_pair E)),
             notices = (if \<not> reached \<and> verbose p then [PrecisionNotReached] else []) \<rparr>"
  have result: "Measure_spec E func arg inputs num_inputs p = Inr out"
    using nonempty ratio allocated run
    by (simp add: Measure_spec_def collect_def acc0_def out_def case_prod_beta)
  have target: "within_target p (records out) = converged p (statistics E) acc"
    by (simp add: out_def within_target_estimates)
  have "evals_run out \<le> max_evals p"
    using bound by (simp add: out_def)
  moreover have "records out = estimates (statistics E) (rounds_run collect (evals_run out) acc0)"
    using cumulative by (simp add: out_def)
  moreover have "evals_run out < max_evals p \<longrightarrow> within_target p (records out) \<and> notices out = []"
    using exhausted reached target by (cases reached) (auto simp: out_def)
  moreover have "0 < evals_run out \<and> \<not> within_target p (records out) \<longrightarrow>
        evals_run out = max_evals p \<and>
        notices out = (if verbose p then [PrecisionNotReached] else [])"
    using exhausted reached target by (cases reached) (auto simp: out_def)
  moreover have "\<not> verbose p \<longrightarrow> notices out = []"
    by (simp add: out_def)
  ultimately show ?thesis
    using result unfolding collect_def acc0_def by blast
qed

text \<open>
  The example: two rounds are allowed, the deviation after two rounds is 1/3,
  above the default target 0.002; the call succeeds with the two records and the
  notice.
\<close>

theorem Measure_spec_runs_at_most_max_evals_witness:
  "(4::nat) \<noteq> 0 \<and>
   2 \<le> subset_ratio (Params_default \<lparr> max_evals := 2 \<rparr>) \<and>
   buffer example_collaborators (length (initial_accumulators (take 4 [0, 0, 0, 1]))) = Some 4096 \<and>
   (\<exists>out. Measure_spec example_collaborators (\<lambda>ctx x. Some (word_of_nat x + 1)) 0 [0, 0, 0, 1] 4
             (Params_default \<lparr> max_evals := 2 \<rparr>) = Inr out \<and>
          evals_run out = 2 \<and>
          evals_run out \<le> max_evals (Params_default \<lparr> max_evals := 2 \<rparr>) \<and>
          \<not> within_target (Params_default \<lparr> max_evals := 2 \<rparr>) (records out) \<and>
          notices out = [PrecisionNotReached])"
proof -
  have nonempty: "(4::nat) \<noteq> 0" by simp
  have ratio: "2 \<le> subset_ratio (Params_default \<lparr> max_evals := 2 \<rparr>)"
    by (simp add: Params_default_def)
  have allocated:
    "buffer example_collaborators (length (initial_accumulators (take 4 [0, 0, 0, 1]))) = Some 4096"
    by (simp add: example_collaborators_def)
  from Measure_spec_runs_at_most_max_evals
    [OF nonempty ratio allocated, of "\<lambda>ctx x. Some (word_of_nat x + 1)" 0]
  obtain out where
    result: "Measure_spec example_collaborators (\<lambda>ctx x. Some (word_of_nat x + 1)) 0 [0, 0, 0, 1] 4
               (Params_default \<lparr> max_evals := 2 \<rparr>) = Inr out"
    and bound: "evals_run out \<le> max_evals (Params_default \<lparr> max_evals := 2 \<rparr>)"
    by blast
  from result example_run have
    "evals_run out = 2 \<and> \<not> within_target (Params_default \<lparr> max_evals := 2 \<rparr>) (records out) \<and>
     notices out = [PrecisionNotReached]"
    by (auto simp: within_target_def Params_default_def)
  with nonempty ratio allocated result bound show ?thesis
    by blast
qed


end
